theory Spec2Isabelle
  imports Main "HOL-Library.Word"
begin

unbundle bit_operations_syntax

section \<open>The stylus driver of IPTS (stylus.c)\<close>

text \<open>
  The file decodes a buffer of stylus reports and forwards every report to the input
  core of the kernel as a group of key and axis events, closed by a synchronisation
  event. The C functions mutate \<^verbatim>\<open>struct ipts_context\<close> and call into the input
  core; here every function takes the context and returns the new context together with
  the calls it made, in order.
\<close>

type_synonym u8 = "8 word"
type_synonym u16 = "16 word"
type_synonym u32 = "32 word"
type_synonym s32 = "32 word" \<comment> \<open>read with \<open>sint\<close>\<close>

subsection \<open>Constants of the input core (linux/input.h)\<close>

definition BTN_TOOL_PEN :: u16 where "BTN_TOOL_PEN = 0x140"
definition BTN_TOOL_RUBBER :: u16 where "BTN_TOOL_RUBBER = 0x141"
definition BTN_TOUCH :: u16 where "BTN_TOUCH = 0x14a"
definition BTN_STYLUS :: u16 where "BTN_STYLUS = 0x14b"

datatype abs_code = ABS_X | ABS_Y | ABS_PRESSURE | ABS_TILT_X | ABS_TILT_Y | ABS_MISC

datatype input_prop = INPUT_PROP_POINTER | INPUT_PROP_DIRECT

definition BUS_MEI :: u16 where "BUS_MEI = 0x44"

definition ENOMEM :: int where "ENOMEM = 12"

text \<open>
  The events a driver hands to the input core. \<^verbatim>\<open>input_report_key(dev, code, value)\<close>
  is \<^verbatim>\<open>input_event(dev, EV_KEY, code, !!value)\<close>: the core sees whether the value is
  nonzero. \<^verbatim>\<open>input_report_abs\<close> passes its \<^verbatim>\<open>int\<close> value on as it is, and
  \<^verbatim>\<open>input_sync\<close> closes the group. In the words of the specification, \<open>EV_KEY BTN_TOUCH b\<close>
  is \<open>SetTouch(b)\<close>, \<open>EV_KEY BTN_STYLUS b\<close> is \<open>SetButton(b)\<close>, \<open>EV_KEY BTN_TOOL_PEN b\<close> and
  \<open>EV_KEY BTN_TOOL_RUBBER b\<close> are \<open>SetActive(Pen, b)\<close> and \<open>SetActive(Eraser, b)\<close>,
  \<open>EV_ABS a v\<close> is \<open>SetAxis(a, v)\<close> and \<open>EV_SYN\<close> is \<open>Flush\<close>.
\<close>

datatype input_event = EV_KEY u16 bool | EV_ABS abs_code int | EV_SYN

definition input_report_key :: "u16 \<Rightarrow> int \<Rightarrow> input_event" where
  "input_report_key code v = EV_KEY code (v \<noteq> 0)"

definition input_report_abs :: "abs_code \<Rightarrow> int \<Rightarrow> input_event" where
  "input_report_abs code v = EV_ABS code v"

definition input_sync :: input_event where
  "input_sync = EV_SYN"

record input_absinfo =
  minimum :: int
  maximum :: int
  fuzz :: int
  flat :: int
  resolution :: int

record input_id =
  bustype :: u16
  vendor :: u16
  product :: u16
  version :: u16

text \<open>The part of \<^verbatim>\<open>struct input_dev\<close> that the driver fills in.\<close>

record input_dev =
  propbit :: "input_prop set"
  absinfo :: "abs_code \<rightharpoonup> input_absinfo"
  keybit :: "u16 set"
  id :: input_id
  phys :: string
  name :: string

definition input_set_abs_params :: "input_dev \<Rightarrow> abs_code \<Rightarrow> int \<Rightarrow> int \<Rightarrow> int \<Rightarrow> int \<Rightarrow> input_dev" where
  "input_set_abs_params dev axis mn mx fz fl =
     dev\<lparr>absinfo := (absinfo dev)(axis \<mapsto>
       (case absinfo dev axis of
          None \<Rightarrow> \<lparr>minimum = mn, maximum = mx, fuzz = fz, flat = fl, resolution = 0\<rparr>
        | Some a \<Rightarrow> a\<lparr>minimum := mn, maximum := mx, fuzz := fz, flat := fl\<rparr>))\<rparr>"

definition input_abs_set_res :: "input_dev \<Rightarrow> abs_code \<Rightarrow> int \<Rightarrow> input_dev" where
  "input_abs_set_res dev axis r =
     dev\<lparr>absinfo := (absinfo dev)(axis \<mapsto>
       (case absinfo dev axis of
          None \<Rightarrow> \<lparr>minimum = 0, maximum = 0, fuzz = 0, flat = 0, resolution = r\<rparr>
        | Some a \<Rightarrow> a\<lparr>resolution := r\<rparr>))\<rparr>"

definition input_set_capability_key :: "input_dev \<Rightarrow> u16 \<Rightarrow> input_dev" where
  "input_set_capability_key dev code = dev\<lparr>keybit := insert code (keybit dev)\<rparr>"

subsection \<open>Declarations of the driver's headers\<close>

text \<open>
  Modelled from the spec: \<^verbatim>\<open>struct ipts_stylus_report\<close> is declared in protocol/touch.h,
  which is not among the sources. The specification gives the canonical report a mode
  byte and 16-bit fields \<open>x\<close>, \<open>y\<close>, \<open>pressure\<close>, \<open>altitude\<close>, \<open>azimuth\<close> and \<open>timestamp\<close>.
\<close>

record ipts_stylus_report =
  timestamp :: u16
  mode :: u8
  x :: u16
  y :: u16
  pressure :: u16
  altitude :: u16
  azimuth :: u16

text \<open>
  Modelled from the spec: \<^verbatim>\<open>struct ipts_stylus_report_ntrig\<close>, the record of the legacy
  format, also declared in protocol/touch.h. It has the fields that
  \<^verbatim>\<open>ipts_stylus_parse_report_ntrig\<close> reads and lacks altitude, azimuth and timestamp.
\<close>

record ipts_stylus_report_ntrig =
  mode_ntrig :: u8
  x_ntrig :: u16
  y_ntrig :: u16
  pressure_ntrig :: u16

text \<open>
  What the code takes from protocol/enums.h, protocol/touch.h and quirks.h, none of which
  is among the sources, is a parameter of the model: the four masks of the mode byte, the
  quirk bit of the NTRIG digitizers, and for each of the two wire records its size in
  bytes and the reading of that many bytes as the struct (the cast of
  \<^verbatim>\<open>&data->data[40]\<close> and \<^verbatim>\<open>&data->data[44]\<close> to a pointer to the struct).
\<close>

record protocol =
  IPTS_STYLUS_REPORT_MODE_PROXIMITY :: u8
  IPTS_STYLUS_REPORT_MODE_TOUCH :: u8
  IPTS_STYLUS_REPORT_MODE_BUTTON :: u8
  IPTS_STYLUS_REPORT_MODE_RUBBER :: u8
  IPTS_QUIRKS_NTRIG_DIGITIZER :: u32
  sizeof_report :: nat
  as_report :: "u8 list \<Rightarrow> ipts_stylus_report"
  sizeof_report_ntrig :: nat
  as_report_ntrig :: "u8 list \<Rightarrow> ipts_stylus_report_ntrig"

text \<open>
  Modelled from the spec: the identity fields of the device (vendor, product, firmware
  revision) that context.h keeps in \<^verbatim>\<open>ipts->device_info\<close>.
\<close>

record ipts_device_info =
  vendor_id :: u16
  device_id :: u16
  fw_rev :: u32

text \<open>
  Modelled from the spec: \<^verbatim>\<open>struct ipts_context\<close> is declared in context.h, which is not
  among the sources. These are the fields that stylus.c uses: the quirk flags, the active
  tool of the session (the code compares it with a \<^verbatim>\<open>u16\<close>), the pointer to the input
  device and the identity of the hardware. For the pointer \<open>stylus\<close>, \<open>None\<close> is the null
  pointer and \<open>Some dev\<close> a pointer to a device whose fields are \<open>dev\<close>.
\<close>

record ipts_context =
  quirks :: u32
  stylus_tool :: u16
  stylus :: "input_dev option"
  device_info :: ipts_device_info

text \<open>
  \<^verbatim>\<open>ipts_math_altitude_azimuth_to_tilt\<close> is defined in math.c, outside the sources. It
  receives the altitude, the azimuth and pointers to \<open>tx\<close> and \<open>ty\<close>, both 0 before the
  call; the parameter \<open>tilt\<close> of the model gives the values of \<open>tx\<close> and \<open>ty\<close> after it.
\<close>

type_synonym tilt_converter = "u16 \<Rightarrow> u16 \<Rightarrow> s32 \<times> s32"

subsection \<open>ipts_stylus_handle_report\<close>

text \<open>
  Lines 32 to 35 choose the tool and lines 22 to 30 the tilt; both are named here because
  the theorems speak about them. The locals \<open>prox\<close>, \<open>touch\<close>, \<open>button\<close> and \<open>rubber\<close> are of
  type \<^verbatim>\<open>u8\<close>.
\<close>

definition report_tool :: "protocol \<Rightarrow> ipts_stylus_report \<Rightarrow> u16" where
  "report_tool P report =
     (let prox = mode report AND IPTS_STYLUS_REPORT_MODE_PROXIMITY P;
          rubber = mode report AND IPTS_STYLUS_REPORT_MODE_RUBBER P
      in if prox \<noteq> 0 \<and> rubber \<noteq> 0 then BTN_TOOL_RUBBER else BTN_TOOL_PEN)"

definition report_tilt :: "tilt_converter \<Rightarrow> ipts_stylus_report \<Rightarrow> s32 \<times> s32" where
  "report_tilt tilt report =
     (if altitude report \<noteq> 0 then tilt (altitude report) (azimuth report) else (0, 0))"

text \<open>
  The function itself: the tool switch of lines 37 to 42, then the ten calls of lines 44 to
  56. The result is the context after the call and the events handed to the input core.
\<close>

definition ipts_stylus_handle_report ::
    "protocol \<Rightarrow> tilt_converter \<Rightarrow> ipts_context \<Rightarrow> ipts_stylus_report
       \<Rightarrow> ipts_context \<times> input_event list" where
  "ipts_stylus_handle_report P tilt ipts report =
     (let prox = mode report AND IPTS_STYLUS_REPORT_MODE_PROXIMITY P;
          touch = mode report AND IPTS_STYLUS_REPORT_MODE_TOUCH P;
          button = mode report AND IPTS_STYLUS_REPORT_MODE_BUTTON P;
          (tx, ty) = report_tilt tilt report;
          tool = report_tool P report;
          (ipts1, switch) =
            (if stylus_tool ipts \<noteq> tool
             then (ipts\<lparr>stylus_tool := tool\<rparr>,
                   [input_report_key (stylus_tool ipts) 0, input_sync])
             else (ipts, []))
      in (ipts1,
          switch @
          [input_report_key BTN_TOUCH (uint touch),
           input_report_key (stylus_tool ipts1) (uint prox),
           input_report_key BTN_STYLUS (uint button),
           input_report_abs ABS_X (uint (x report)),
           input_report_abs ABS_Y (uint (y report)),
           input_report_abs ABS_PRESSURE (uint (pressure report)),
           input_report_abs ABS_MISC (uint (timestamp report)),
           input_report_abs ABS_TILT_X (sint tx),
           input_report_abs ABS_TILT_Y (sint ty),
           input_sync]))"

subsection \<open>The touch data buffer\<close>

text \<open>
  Modelled from the spec: \<^verbatim>\<open>struct ipts_touch_data\<close> is declared in protocol/touch.h, which
  is not among the sources. The code uses its buffer id \<open>buffer\<close> and its bytes \<open>data\<close>; the
  width of the id is left open. The specification's buffer is a byte sequence of some
  actual length, kept here as \<open>dsize\<close>. The code never reads that length: \<open>data d k\<close> is
  the byte that \<^verbatim>\<open>data->data[k]\<close> reads, also for \<open>k \<ge> dsize d\<close>, where it is whatever the
  memory behind the buffer holds.
\<close>

record (overloaded) ('b::len) ipts_touch_data =
  buffer :: "'b word"
  dsize :: nat
  data :: "nat \<Rightarrow> u8"

definition bytes_at :: "('b::len) ipts_touch_data \<Rightarrow> nat \<Rightarrow> nat \<Rightarrow> u8 list" where
  "bytes_at d off n = map (data d) [off ..< off + n]"

subsection \<open>ipts_stylus_parse_report_ntrig\<close>

text \<open>\<^verbatim>\<open>reports[i]\<close> for \<^verbatim>\<open>reports = (struct ipts_stylus_report_ntrig *)&data->data[44]\<close>.\<close>

definition reports_ntrig :: "protocol \<Rightarrow> ('b::len) ipts_touch_data \<Rightarrow> nat \<Rightarrow> ipts_stylus_report_ntrig" where
  "reports_ntrig P d i =
     as_report_ntrig P (bytes_at d (44 + i * sizeof_report_ntrig P) (sizeof_report_ntrig P))"

text \<open>The report that the body of the loop builds from \<^verbatim>\<open>reports[i]\<close>.\<close>

definition report_of_ntrig :: "protocol \<Rightarrow> ('b::len) ipts_touch_data \<Rightarrow> nat \<Rightarrow> ipts_stylus_report" where
  "report_of_ntrig P d i =
     \<lparr>timestamp = ucast (buffer d),
      mode = mode_ntrig (reports_ntrig P d i),
      x = x_ntrig (reports_ntrig P d i),
      y = y_ntrig (reports_ntrig P d i),
      pressure = pressure_ntrig (reports_ntrig P d i),
      altitude = 0,
      azimuth = 0\<rparr>"

text \<open>
  The loop \<^verbatim>\<open>for (i = 0; i < count; i++)\<close> with its counters of type \<^verbatim>\<open>u8\<close>; the state
  is the context and the events emitted so far.
\<close>

function ntrig_loop ::
    "protocol \<Rightarrow> tilt_converter \<Rightarrow> ('b::len) ipts_touch_data \<Rightarrow> u8 \<Rightarrow> u8
       \<Rightarrow> ipts_context \<times> input_event list \<Rightarrow> ipts_context \<times> input_event list" where
  "ntrig_loop P tilt d count i (ipts, evs) =
     (if i < count
      then (let (ipts1, ev) = ipts_stylus_handle_report P tilt ipts (report_of_ntrig P d (unat i))
            in ntrig_loop P tilt d count (i + 1) (ipts1, evs @ ev))
      else (ipts, evs))"
  by pat_completeness auto
termination
proof (relation "measure (\<lambda>(P, tilt, d, count, i, s). unat count - unat i)")
  show "wf (measure (\<lambda>(P, tilt, d, count, i, s). unat count - unat i))"
    by simp
next
  fix P :: protocol and tilt :: tilt_converter and d :: "'b ipts_touch_data"
    and count i :: u8 and ipts :: ipts_context and evs :: "input_event list"
    and xa :: "ipts_context \<times> input_event list" and x y
  assume lt: "i < count"
  have below: "unat i < unat count"
    using lt by (simp add: word_less_nat_alt)
  moreover have "unat count < 2 ^ LENGTH(8)"
    using unsigned_less [of count, where ?'a = nat] by simp
  ultimately have "unat i + unat (1::u8) < 2 ^ LENGTH(8)"
    by simp
  then have "unat (i + 1) = unat i + unat (1::u8)"
    by (simp only: unat_add_lem)
  then have "unat (i + 1) = Suc (unat i)"
    by simp
  with below show "((P, tilt, d, count, i + 1, x, evs @ y), (P, tilt, d, count, i, ipts, evs))
      \<in> measure (\<lambda>(P, tilt, d, count, i, s). unat count - unat i)"
    by simp
qed

definition ipts_stylus_parse_report_ntrig ::
    "protocol \<Rightarrow> tilt_converter \<Rightarrow> ipts_context \<Rightarrow> ('b::len) ipts_touch_data
       \<Rightarrow> ipts_context \<times> input_event list" where
  "ipts_stylus_parse_report_ntrig P tilt ipts d =
     (let count = data d 32 in ntrig_loop P tilt d count 0 (ipts, []))"

subsection \<open>ipts_stylus_parse_report\<close>

text \<open>\<^verbatim>\<open>reports[i]\<close> for \<^verbatim>\<open>reports = (struct ipts_stylus_report *)&data->data[40]\<close>.\<close>

definition reports :: "protocol \<Rightarrow> ('b::len) ipts_touch_data \<Rightarrow> nat \<Rightarrow> ipts_stylus_report" where
  "reports P d i = as_report P (bytes_at d (40 + i * sizeof_report P) (sizeof_report P))"

function report_loop ::
    "protocol \<Rightarrow> tilt_converter \<Rightarrow> ('b::len) ipts_touch_data \<Rightarrow> u8 \<Rightarrow> u8
       \<Rightarrow> ipts_context \<times> input_event list \<Rightarrow> ipts_context \<times> input_event list" where
  "report_loop P tilt d count i (ipts, evs) =
     (if i < count
      then (let (ipts1, ev) = ipts_stylus_handle_report P tilt ipts (reports P d (unat i))
            in report_loop P tilt d count (i + 1) (ipts1, evs @ ev))
      else (ipts, evs))"
  by pat_completeness auto
termination
proof (relation "measure (\<lambda>(P, tilt, d, count, i, s). unat count - unat i)")
  show "wf (measure (\<lambda>(P, tilt, d, count, i, s). unat count - unat i))"
    by simp
next
  fix P :: protocol and tilt :: tilt_converter and d :: "'b ipts_touch_data"
    and count i :: u8 and ipts :: ipts_context and evs :: "input_event list"
    and xa :: "ipts_context \<times> input_event list" and x y
  assume lt: "i < count"
  have below: "unat i < unat count"
    using lt by (simp add: word_less_nat_alt)
  moreover have "unat count < 2 ^ LENGTH(8)"
    using unsigned_less [of count, where ?'a = nat] by simp
  ultimately have "unat i + unat (1::u8) < 2 ^ LENGTH(8)"
    by simp
  then have "unat (i + 1) = unat i + unat (1::u8)"
    by (simp only: unat_add_lem)
  then have "unat (i + 1) = Suc (unat i)"
    by simp
  with below show "((P, tilt, d, count, i + 1, x, evs @ y), (P, tilt, d, count, i, ipts, evs))
      \<in> measure (\<lambda>(P, tilt, d, count, i, s). unat count - unat i)"
    by simp
qed

definition ipts_stylus_parse_report ::
    "protocol \<Rightarrow> tilt_converter \<Rightarrow> ipts_context \<Rightarrow> ('b::len) ipts_touch_data
       \<Rightarrow> ipts_context \<times> input_event list" where
  "ipts_stylus_parse_report P tilt ipts d =
     (if quirks ipts AND IPTS_QUIRKS_NTRIG_DIGITIZER P \<noteq> 0
      then ipts_stylus_parse_report_ntrig P tilt ipts d
      else (let count = data d 32 in report_loop P tilt d count 0 (ipts, [])))"

subsection \<open>ipts_stylus_init and ipts_stylus_free\<close>

text \<open>
  The calls into the input core that allocate, register and release the device, and the
  message of \<^verbatim>\<open>dev_err\<close>. \<open>Input_allocate_device\<close> carries the pointer it returned,
  \<open>Input_register_device\<close> the device it was given and the code it returned.
\<close>

datatype input_call =
    Input_allocate_device "input_dev option"
  | Input_register_device input_dev int
  | Dev_err string int
  | Input_free_device
  | Input_unregister_device

text \<open>Lines 119 to 143: the fields of the allocated device that the driver sets.\<close>

definition stylus_setup :: "protocol \<Rightarrow> ipts_context \<Rightarrow> input_dev \<Rightarrow> input_dev" where
  "stylus_setup P ipts dev0 =
     (let pressure = (if quirks ipts AND IPTS_QUIRKS_NTRIG_DIGITIZER P \<noteq> 0 then 1024 else 4096 :: u16);
          dev = dev0\<lparr>propbit := insert INPUT_PROP_POINTER (insert INPUT_PROP_DIRECT (propbit dev0))\<rparr>;
          dev = input_set_abs_params dev ABS_X 0 9600 0 0;
          dev = input_abs_set_res dev ABS_X 34;
          dev = input_set_abs_params dev ABS_Y 0 7200 0 0;
          dev = input_abs_set_res dev ABS_Y 38;
          dev = input_set_abs_params dev ABS_PRESSURE 0 (uint pressure) 0 0;
          dev = input_set_abs_params dev ABS_TILT_X (- 9000) 9000 0 0;
          dev = input_abs_set_res dev ABS_TILT_X 5730;
          dev = input_set_abs_params dev ABS_TILT_Y (- 9000) 9000 0 0;
          dev = input_abs_set_res dev ABS_TILT_Y 5730;
          dev = input_set_abs_params dev ABS_MISC 0 65535 0 0;
          dev = input_set_capability_key dev BTN_TOUCH;
          dev = input_set_capability_key dev BTN_STYLUS;
          dev = input_set_capability_key dev BTN_TOOL_PEN;
          dev = input_set_capability_key dev BTN_TOOL_RUBBER
      in dev\<lparr>id := \<lparr>bustype = BUS_MEI,
                     vendor = ucast (vendor_id (device_info ipts)),
                     product = ucast (device_id (device_info ipts)),
                     version = ucast (fw_rev (device_info ipts))\<rparr>,
              phys := ''heci3'',
              name := ''Intel Precise Stylus''\<rparr>)"

text \<open>
  \<open>allocated\<close> is what \<^verbatim>\<open>input_allocate_device\<close> returns and \<open>register\<close> what
  \<^verbatim>\<open>input_register_device\<close> returns for a device; both belong to the input core. The
  result is the returned code, the context and the calls made. After
  \<^verbatim>\<open>input_free_device\<close> the field \<^verbatim>\<open>ipts->stylus\<close> still holds the pointer: the code does not
  reset it.
\<close>

definition ipts_stylus_init ::
    "protocol \<Rightarrow> input_dev option \<Rightarrow> (input_dev \<Rightarrow> int) \<Rightarrow> ipts_context
       \<Rightarrow> int \<times> ipts_context \<times> input_call list" where
  "ipts_stylus_init P allocated register ipts =
     (case allocated of
        None \<Rightarrow> (- ENOMEM, ipts\<lparr>stylus := None\<rparr>, [Input_allocate_device None])
      | Some dev0 \<Rightarrow>
          (let ipts1 = ipts\<lparr>stylus := Some dev0, stylus_tool := BTN_TOOL_PEN\<rparr>;
               dev = stylus_setup P ipts1 dev0;
               ipts2 = ipts1\<lparr>stylus := Some dev\<rparr>;
               ret = register dev
           in if ret \<noteq> 0
              then (ret, ipts2,
                    [Input_allocate_device (Some dev0), Input_register_device dev ret,
                     Dev_err (name dev) ret, Input_free_device])
              else (0, ipts2,
                    [Input_allocate_device (Some dev0), Input_register_device dev ret])))"

definition ipts_stylus_free :: "ipts_context \<Rightarrow> input_call list" where
  "ipts_stylus_free ipts =
     (case stylus ipts of None \<Rightarrow> [] | Some dev \<Rightarrow> [Input_unregister_device])"

text \<open>
  What the input core holds for the driver after a sequence of calls: an allocated device
  stays with the core until \<^verbatim>\<open>input_free_device\<close> or \<^verbatim>\<open>input_unregister_device\<close> releases
  it, and it is registered once \<^verbatim>\<open>input_register_device\<close> has returned 0.
\<close>

datatype core_state = Released | Allocated | Registered

fun input_core :: "core_state \<Rightarrow> input_call \<Rightarrow> core_state" where
  "input_core s (Input_allocate_device r) = (if r = None then s else Allocated)"
| "input_core s (Input_register_device dev ret) = (if ret = 0 then Registered else s)"
| "input_core s (Dev_err msg ret) = s"
| "input_core s Input_free_device = Released"
| "input_core s Input_unregister_device = Released"

definition core_after :: "input_call list \<Rightarrow> core_state" where
  "core_after calls = foldl input_core Released calls"

subsection \<open>The decoder and the emitter of the specification\<close>

text \<open>
  The specification splits the work in two: \<open>decode\<close> turns a buffer into the sequence of
  its canonical reports, in record order, and \<open>emit\<close> (here
  \<open>ipts_stylus_handle_report\<close>) is called once for each. \<open>legacy\<close> is the wire-format flag
  of the session.
\<close>

definition legacy :: "protocol \<Rightarrow> ipts_context \<Rightarrow> bool" where
  "legacy P ipts \<longleftrightarrow> quirks ipts AND IPTS_QUIRKS_NTRIG_DIGITIZER P \<noteq> 0"

definition decode :: "protocol \<Rightarrow> bool \<Rightarrow> ('b::len) ipts_touch_data \<Rightarrow> ipts_stylus_report list" where
  "decode P ntrig d =
     map (if ntrig then report_of_ntrig P d else reports P d) [0 ..< unat (data d 32)]"

fun emit_all ::
    "protocol \<Rightarrow> tilt_converter \<Rightarrow> ipts_context \<times> input_event list \<Rightarrow> ipts_stylus_report list
       \<Rightarrow> ipts_context \<times> input_event list" where
  "emit_all P tilt (ipts, evs) [] = (ipts, evs)"
| "emit_all P tilt (ipts, evs) (r # rs) =
     (let (ipts1, ev) = ipts_stylus_handle_report P tilt ipts r
      in emit_all P tilt (ipts1, evs @ ev) rs)"

text \<open>
  The offset behind the last record that the count byte declares, and the buffers whose
  count makes the decoder read records past their actual length.
\<close>

definition records_end :: "protocol \<Rightarrow> bool \<Rightarrow> ('b::len) ipts_touch_data \<Rightarrow> nat" where
  "records_end P ntrig d =
     (if ntrig then 44 + unat (data d 32) * sizeof_report_ntrig P
      else 40 + unat (data d 32) * sizeof_report P)"

definition reads_past_buffer :: "protocol \<Rightarrow> bool \<Rightarrow> ('b::len) ipts_touch_data \<Rightarrow> bool" where
  "reads_past_buffer P ntrig d \<longleftrightarrow> data d 32 \<noteq> 0 \<and> dsize d < records_end P ntrig d"

text \<open>The values delivered on one axis, in order.\<close>

fun axis_values :: "abs_code \<Rightarrow> input_event list \<Rightarrow> int list" where
  "axis_values a [] = []"
| "axis_values a (EV_ABS b v # evs) = (if a = b then v # axis_values a evs else axis_values a evs)"
| "axis_values a (e # evs) = axis_values a evs"

subsection \<open>An instance of the parameters\<close>

text \<open>
  For running the model on concrete buffers: the mode masks are the bits 0 to 3, the quirk
  is bit 0, the records are packed and little-endian, 16 bytes for the current format
  (timestamp, mode, x, y, pressure, altitude, azimuth, each in two bytes, and two reserved
  bytes) and 12 bytes for the legacy format (four reserved bytes, the mode byte, x, y and
  pressure in two bytes each, one reserved byte). The theorems below hold for every
  instance; this one serves the concrete runs.
\<close>

definition le16 :: "u8 \<Rightarrow> u8 \<Rightarrow> u16" where
  "le16 lo hi = ucast lo OR push_bit 8 (ucast hi)"

definition as_report_le :: "u8 list \<Rightarrow> ipts_stylus_report" where
  "as_report_le bs =
     \<lparr>timestamp = le16 (bs ! 0) (bs ! 1),
      mode = bs ! 2,
      x = le16 (bs ! 4) (bs ! 5),
      y = le16 (bs ! 6) (bs ! 7),
      pressure = le16 (bs ! 8) (bs ! 9),
      altitude = le16 (bs ! 10) (bs ! 11),
      azimuth = le16 (bs ! 12) (bs ! 13)\<rparr>"

definition as_report_ntrig_le :: "u8 list \<Rightarrow> ipts_stylus_report_ntrig" where
  "as_report_ntrig_le bs =
     \<lparr>mode_ntrig = bs ! 4,
      x_ntrig = le16 (bs ! 5) (bs ! 6),
      y_ntrig = le16 (bs ! 7) (bs ! 8),
      pressure_ntrig = le16 (bs ! 9) (bs ! 10)\<rparr>"

definition ipts_protocol :: protocol where
  "ipts_protocol =
     \<lparr>IPTS_STYLUS_REPORT_MODE_PROXIMITY = 1,
      IPTS_STYLUS_REPORT_MODE_TOUCH = 2,
      IPTS_STYLUS_REPORT_MODE_BUTTON = 4,
      IPTS_STYLUS_REPORT_MODE_RUBBER = 8,
      IPTS_QUIRKS_NTRIG_DIGITIZER = 1,
      sizeof_report = 16,
      as_report = as_report_le,
      sizeof_report_ntrig = 12,
      as_report_ntrig = as_report_ntrig_le\<rparr>"

text \<open>A tilt converter for the concrete runs; any other would do.\<close>

definition tilt_sample :: tilt_converter where
  "tilt_sample alt azm = (ucast alt, - ucast azm)"

text \<open>Memory that holds the bytes \<open>bs\<close> from offset 0 and zero bytes behind them.\<close>

definition mem_of :: "u8 list \<Rightarrow> nat \<Rightarrow> u8" where
  "mem_of bs k = (if k < length bs then bs ! k else 0)"

text \<open>A freshly allocated device, a session before its start, and a registration that fails.\<close>

definition blank_dev :: input_dev where
  "blank_dev =
     \<lparr>propbit = {}, absinfo = Map.empty, keybit = {},
      id = \<lparr>bustype = 0, vendor = 0, product = 0, version = 0\<rparr>,
      phys = [], name = []\<rparr>"

definition blank_context :: "u32 \<Rightarrow> ipts_context" where
  "blank_context q =
     \<lparr>quirks = q, stylus_tool = 0, stylus = None,
      device_info = \<lparr>vendor_id = 0x8086, device_id = 0x9d3e, fw_rev = 1\<rparr>\<rparr>"

definition register_ok :: "input_dev \<Rightarrow> int" where
  "register_ok dev = 0"

definition register_fails :: "input_dev \<Rightarrow> int" where
  "register_fails dev = - 12"

text \<open>
  The group of events of one report, as the specification lists it: touch, activation of
  the tool with the proximity flag, button, the four axes, the two tilt axes, and the
  closing flush.
\<close>

definition report_group :: "protocol \<Rightarrow> tilt_converter \<Rightarrow> u16 \<Rightarrow> ipts_stylus_report \<Rightarrow> input_event list" where
  "report_group P tilt tool report =
     [EV_KEY BTN_TOUCH (mode report AND IPTS_STYLUS_REPORT_MODE_TOUCH P \<noteq> 0),
      EV_KEY tool (mode report AND IPTS_STYLUS_REPORT_MODE_PROXIMITY P \<noteq> 0),
      EV_KEY BTN_STYLUS (mode report AND IPTS_STYLUS_REPORT_MODE_BUTTON P \<noteq> 0),
      EV_ABS ABS_X (uint (x report)),
      EV_ABS ABS_Y (uint (y report)),
      EV_ABS ABS_PRESSURE (uint (pressure report)),
      EV_ABS ABS_MISC (uint (timestamp report)),
      EV_ABS ABS_TILT_X (sint (fst (report_tilt tilt report))),
      EV_ABS ABS_TILT_Y (sint (snd (report_tilt tilt report))),
      EV_SYN]"

text \<open>A session with the pen active, and two reports: the pen touching, the eraser near.\<close>

definition pen_session :: ipts_context where
  "pen_session = (blank_context 0)\<lparr>stylus_tool := BTN_TOOL_PEN\<rparr>"

definition pen_report :: ipts_stylus_report where
  "pen_report =
     \<lparr>timestamp = 7, mode = 3, x = 100, y = 200, pressure = 50, altitude = 0, azimuth = 0\<rparr>"

definition eraser_report :: ipts_stylus_report where
  "eraser_report =
     \<lparr>timestamp = 8, mode = 9, x = 100, y = 200, pressure = 0, altitude = 0, azimuth = 300\<rparr>"

text \<open>The maximum that the device of the session declares for the pressure axis.\<close>

definition pressure_max :: "ipts_context \<Rightarrow> int option" where
  "pressure_max ipts =
     (case stylus ipts of
        None \<Rightarrow> None
      | Some dev \<Rightarrow> map_option maximum (absinfo dev ABS_PRESSURE))"

text \<open>
  A buffer of the current format that declares two reports and is 56 bytes long: the first
  record, at offsets 40 to 55, lies inside it and the second, at offsets 56 to 71, behind it.
\<close>

definition short_buffer :: "32 ipts_touch_data" where
  "short_buffer =
     \<lparr>buffer = 5, dsize = 56,
      data = mem_of (replicate 32 0 @ [2] @ replicate 7 0 @
                     [7, 0, 3, 0, 100, 0, 200, 0, 50, 0, 0, 0, 0, 0, 0, 0])\<rparr>"

text \<open>
  A buffer of the current format with one report of pressure 5000, and a buffer of the legacy
  format with two reports.
\<close>

definition heavy_buffer :: "32 ipts_touch_data" where
  "heavy_buffer =
     \<lparr>buffer = 5, dsize = 56,
      data = mem_of (replicate 32 0 @ [1] @ replicate 7 0 @
                     [7, 0, 3, 0, 100, 0, 200, 0, 0x88, 0x13, 0, 0, 0, 0, 0, 0])\<rparr>"

definition legacy_buffer :: "32 ipts_touch_data" where
  "legacy_buffer =
     \<lparr>buffer = 5, dsize = 68,
      data = mem_of (replicate 32 0 @ [2] @ replicate 11 0 @
                     [0, 0, 0, 0, 3, 100, 0, 200, 0, 50, 0, 0] @
                     [0, 0, 0, 0, 1, 101, 0, 201, 0, 0, 0, 0])\<rparr>"

definition empty_buffer :: "32 ipts_touch_data" where
  "empty_buffer = \<lparr>buffer = 6, dsize = 40, data = mem_of (replicate 40 0)\<rparr>"

definition legacy_session :: ipts_context where
  "legacy_session = (blank_context 1)\<lparr>stylus_tool := BTN_TOOL_PEN\<rparr>"

text \<open>
  Sessions as \<open>ipts_stylus_init\<close> leaves them: started on the current format, and after a
  registration that failed.
\<close>

definition current_session :: ipts_context where
  "current_session =
     fst (snd (ipts_stylus_init ipts_protocol (Some blank_dev) register_ok (blank_context 0)))"

definition failed_session :: ipts_context where
  "failed_session =
     fst (snd (ipts_stylus_init ipts_protocol (Some blank_dev) register_fails (blank_context 0)))"

text \<open>
  A buffer of the current format with two reports, the pen touching and then the eraser
  near, and the legacy buffer again under a buffer id that does not fit 16 bits.
\<close>

definition two_buffer :: "32 ipts_touch_data" where
  "two_buffer =
     \<lparr>buffer = 5, dsize = 72,
      data = mem_of (replicate 32 0 @ [2] @ replicate 7 0 @
                     [7, 0, 3, 0, 100, 0, 200, 0, 50, 0, 0, 0, 0, 0, 0, 0] @
                     [8, 0, 9, 0, 101, 0, 201, 0, 0, 0, 0, 0, 0x2c, 1, 0, 0])\<rparr>"

definition wide_id_buffer :: "32 ipts_touch_data" where
  "wide_id_buffer =
     \<lparr>buffer = 74565, dsize = 68,
      data = mem_of (replicate 32 0 @ [2] @ replicate 11 0 @
                     [0, 0, 0, 0, 3, 100, 0, 200, 0, 50, 0, 0] @
                     [0, 0, 0, 0, 1, 101, 0, 201, 0, 0, 0, 0])\<rparr>"

section \<open>Handling one report\<close>

lemmas report_defs = input_report_key_def input_report_abs_def input_sync_def

lemma handle_report_switch:
  "stylus_tool ipts \<noteq> report_tool P report \<Longrightarrow>
   ipts_stylus_handle_report P tilt ipts report =
     (ipts\<lparr>stylus_tool := report_tool P report\<rparr>,
      EV_KEY (stylus_tool ipts) False # EV_SYN # report_group P tilt (report_tool P report) report)"
  by (simp add: ipts_stylus_handle_report_def report_group_def report_defs Let_def split_beta
      unsigned_eq_0_iff)

lemma handle_report_same:
  "stylus_tool ipts = report_tool P report \<Longrightarrow>
   ipts_stylus_handle_report P tilt ipts report =
     (ipts, report_group P tilt (report_tool P report) report)"
  by (simp add: ipts_stylus_handle_report_def report_group_def report_defs Let_def split_beta
      unsigned_eq_0_iff)

lemma handle_report_cases:
  "ipts_stylus_handle_report P tilt ipts report =
     (if stylus_tool ipts \<noteq> report_tool P report
      then (ipts\<lparr>stylus_tool := report_tool P report\<rparr>,
            EV_KEY (stylus_tool ipts) False # EV_SYN # report_group P tilt (report_tool P report) report)
      else (ipts, report_group P tilt (report_tool P report) report))"
  using handle_report_switch [of ipts P report tilt] handle_report_same [of ipts P report tilt]
  by simp

lemma tool_codes_differ: "BTN_TOOL_RUBBER \<noteq> BTN_TOOL_PEN"
  by (simp add: BTN_TOOL_RUBBER_def BTN_TOOL_PEN_def)

text \<open>
  C2. In a session whose active tool is the pen, a report with mode = proximity | touch,
  x = 100, y = 200, pressure = 50, altitude = 0 and azimuth = 0 yields exactly SetTouch(true),
  SetActive(Pen, true), SetButton(false), SetAxis(X, 100), SetAxis(Y, 200),
  SetAxis(Pressure, 50), SetAxis(Misc, timestamp), SetAxis(TiltX, 0), SetAxis(TiltY, 0) and
  Flush, in this order, with no deactivation and flush before them, and leaves the session as
  it was. The masks are parameters: the proximity and touch masks are nonzero and share no
  bit with the button and rubber masks.
\<close>
theorem pen_report_event_sequence:
  assumes "IPTS_STYLUS_REPORT_MODE_PROXIMITY P \<noteq> 0"
    and "IPTS_STYLUS_REPORT_MODE_TOUCH P \<noteq> 0"
    and "(IPTS_STYLUS_REPORT_MODE_PROXIMITY P OR IPTS_STYLUS_REPORT_MODE_TOUCH P)
           AND IPTS_STYLUS_REPORT_MODE_BUTTON P = 0"
    and "(IPTS_STYLUS_REPORT_MODE_PROXIMITY P OR IPTS_STYLUS_REPORT_MODE_TOUCH P)
           AND IPTS_STYLUS_REPORT_MODE_RUBBER P = 0"
    and "stylus_tool ipts = BTN_TOOL_PEN"
  shows "ipts_stylus_handle_report P tilt ipts
           \<lparr>timestamp = ts,
            mode = IPTS_STYLUS_REPORT_MODE_PROXIMITY P OR IPTS_STYLUS_REPORT_MODE_TOUCH P,
            x = 100, y = 200, pressure = 50, altitude = 0, azimuth = 0\<rparr> =
         (ipts,
          [EV_KEY BTN_TOUCH True, EV_KEY BTN_TOOL_PEN True, EV_KEY BTN_STYLUS False,
           EV_ABS ABS_X 100, EV_ABS ABS_Y 200, EV_ABS ABS_PRESSURE 50,
           EV_ABS ABS_MISC (uint ts), EV_ABS ABS_TILT_X 0, EV_ABS ABS_TILT_Y 0, EV_SYN])"
  using assms
  by (simp add: handle_report_cases report_tool_def report_group_def report_tilt_def)

theorem pen_report_event_sequence_witness:
  "IPTS_STYLUS_REPORT_MODE_PROXIMITY ipts_protocol \<noteq> 0 \<and>
   IPTS_STYLUS_REPORT_MODE_TOUCH ipts_protocol \<noteq> 0 \<and>
   (IPTS_STYLUS_REPORT_MODE_PROXIMITY ipts_protocol OR IPTS_STYLUS_REPORT_MODE_TOUCH ipts_protocol)
      AND IPTS_STYLUS_REPORT_MODE_BUTTON ipts_protocol = 0 \<and>
   (IPTS_STYLUS_REPORT_MODE_PROXIMITY ipts_protocol OR IPTS_STYLUS_REPORT_MODE_TOUCH ipts_protocol)
      AND IPTS_STYLUS_REPORT_MODE_RUBBER ipts_protocol = 0 \<and>
   stylus_tool pen_session = BTN_TOOL_PEN \<and>
   ipts_stylus_handle_report ipts_protocol tilt_sample pen_session pen_report =
     (pen_session,
      [EV_KEY BTN_TOUCH True, EV_KEY BTN_TOOL_PEN True, EV_KEY BTN_STYLUS False,
       EV_ABS ABS_X 100, EV_ABS ABS_Y 200, EV_ABS ABS_PRESSURE 50,
       EV_ABS ABS_MISC 7, EV_ABS ABS_TILT_X 0, EV_ABS ABS_TILT_Y 0, EV_SYN])"
  using pen_report_event_sequence [of ipts_protocol pen_session tilt_sample 7]
  by (simp add: ipts_protocol_def pen_session_def pen_report_def)

text \<open>
  C3. When the tool derived from the report differs from the active tool of the session,
  the events start with the deactivation of the previous tool and a flush, the active tool
  becomes the new one, and the group of the report, which is the only place where the new
  tool is named, follows. When the two tools are equal, the events are the group of the
  report alone and the session is unchanged.
\<close>
theorem tool_switch_first:
  "(stylus_tool ipts \<noteq> report_tool P report \<longrightarrow>
      ipts_stylus_handle_report P tilt ipts report =
        (ipts\<lparr>stylus_tool := report_tool P report\<rparr>,
         [EV_KEY (stylus_tool ipts) False, EV_SYN] @
         report_group P tilt (report_tool P report) report)) \<and>
   (stylus_tool ipts = report_tool P report \<longrightarrow>
      ipts_stylus_handle_report P tilt ipts report =
        (ipts, report_group P tilt (report_tool P report) report))"
proof (intro conjI impI)
  assume "stylus_tool ipts \<noteq> report_tool P report"
  then show "ipts_stylus_handle_report P tilt ipts report =
      (ipts\<lparr>stylus_tool := report_tool P report\<rparr>,
       [EV_KEY (stylus_tool ipts) False, EV_SYN] @
       report_group P tilt (report_tool P report) report)"
    by (simp add: handle_report_switch)
next
  assume "stylus_tool ipts = report_tool P report"
  then show "ipts_stylus_handle_report P tilt ipts report =
      (ipts, report_group P tilt (report_tool P report) report)"
    by (rule handle_report_same)
qed

theorem tool_switch_first_witness:
  "stylus_tool pen_session \<noteq> report_tool ipts_protocol eraser_report \<and>
   ipts_stylus_handle_report ipts_protocol tilt_sample pen_session eraser_report =
     (pen_session\<lparr>stylus_tool := BTN_TOOL_RUBBER\<rparr>,
      [EV_KEY BTN_TOOL_PEN False, EV_SYN,
       EV_KEY BTN_TOUCH False, EV_KEY BTN_TOOL_RUBBER True, EV_KEY BTN_STYLUS False,
       EV_ABS ABS_X 100, EV_ABS ABS_Y 200, EV_ABS ABS_PRESSURE 0,
       EV_ABS ABS_MISC 8, EV_ABS ABS_TILT_X 0, EV_ABS ABS_TILT_Y 0, EV_SYN]) \<and>
   stylus_tool pen_session = report_tool ipts_protocol pen_report \<and>
   ipts_stylus_handle_report ipts_protocol tilt_sample pen_session pen_report =
     (pen_session,
      [EV_KEY BTN_TOUCH True, EV_KEY BTN_TOOL_PEN True, EV_KEY BTN_STYLUS False,
       EV_ABS ABS_X 100, EV_ABS ABS_Y 200, EV_ABS ABS_PRESSURE 50,
       EV_ABS ABS_MISC 7, EV_ABS ABS_TILT_X 0, EV_ABS ABS_TILT_Y 0, EV_SYN])"
  using tool_switch_first [of pen_session ipts_protocol eraser_report tilt_sample]
    tool_switch_first [of pen_session ipts_protocol pen_report tilt_sample]
  by (simp add: ipts_protocol_def pen_session_def pen_report_def eraser_report_def
      report_tool_def report_group_def report_tilt_def tool_codes_differ
      BTN_TOOL_RUBBER_def BTN_TOOL_PEN_def)

text \<open>
  C4. For a report with altitude 0, whatever its azimuth, the one value delivered on each of
  the axes TiltX and TiltY is 0, and the tilt converter is not called: the result is the
  same for every converter.
\<close>
theorem zero_altitude_zero_tilt:
  "altitude report = 0 \<Longrightarrow>
   axis_values ABS_TILT_X (snd (ipts_stylus_handle_report P tilt ipts report)) = [0] \<and>
   axis_values ABS_TILT_Y (snd (ipts_stylus_handle_report P tilt ipts report)) = [0] \<and>
   ipts_stylus_handle_report P tilt ipts report = ipts_stylus_handle_report P tilt' ipts report"
  by (simp add: handle_report_cases report_group_def report_tilt_def)

theorem zero_altitude_zero_tilt_witness:
  "altitude eraser_report = 0 \<and> azimuth eraser_report = 300 \<and>
   axis_values ABS_TILT_X
     (snd (ipts_stylus_handle_report ipts_protocol tilt_sample pen_session eraser_report)) = [0] \<and>
   axis_values ABS_TILT_Y
     (snd (ipts_stylus_handle_report ipts_protocol tilt_sample pen_session eraser_report)) = [0]"
  using zero_altitude_zero_tilt [of eraser_report ipts_protocol tilt_sample pen_session tilt_sample]
  by (simp add: eraser_report_def)

text \<open>
  C5. The tool derived from a report is the eraser if and only if the proximity flag and the
  rubber flag are both set in the mode byte, and the pen in every other case; it is the
  active tool of the session after the report.
\<close>
theorem eraser_iff_proximity_and_rubber:
  "(report_tool P report = BTN_TOOL_RUBBER \<longleftrightarrow>
      mode report AND IPTS_STYLUS_REPORT_MODE_PROXIMITY P \<noteq> 0 \<and>
      mode report AND IPTS_STYLUS_REPORT_MODE_RUBBER P \<noteq> 0) \<and>
   (report_tool P report = BTN_TOOL_PEN \<longleftrightarrow>
      \<not> (mode report AND IPTS_STYLUS_REPORT_MODE_PROXIMITY P \<noteq> 0 \<and>
         mode report AND IPTS_STYLUS_REPORT_MODE_RUBBER P \<noteq> 0)) \<and>
   stylus_tool (fst (ipts_stylus_handle_report P tilt ipts report)) = report_tool P report"
  using tool_codes_differ
  by (auto simp add: handle_report_cases report_tool_def)

theorem eraser_iff_proximity_and_rubber_witness:
  "report_tool ipts_protocol eraser_report = BTN_TOOL_RUBBER \<and>
   report_tool ipts_protocol pen_report = BTN_TOOL_PEN \<and>
   stylus_tool (fst (ipts_stylus_handle_report ipts_protocol tilt_sample pen_session eraser_report))
     = BTN_TOOL_RUBBER"
  using eraser_iff_proximity_and_rubber [of ipts_protocol eraser_report tilt_sample pen_session]
    eraser_iff_proximity_and_rubber [of ipts_protocol pen_report tilt_sample pen_session]
  by (simp add: ipts_protocol_def pen_report_def eraser_report_def)

section \<open>Decoding a buffer\<close>

lemma u8_succ: "(i::u8) < count \<Longrightarrow> unat (i + 1) = Suc (unat i) \<and> unat i < unat count"
proof -
  assume lt: "i < count"
  have below: "unat i < unat count"
    using lt by (simp add: word_less_nat_alt)
  moreover have "unat count < 2 ^ LENGTH(8)"
    using unsigned_less [of count, where ?'a = nat] by simp
  ultimately have "unat i + unat (1::u8) < 2 ^ LENGTH(8)"
    by simp
  then have "unat (i + 1) = unat i + unat (1::u8)"
    by (simp only: unat_add_lem)
  with below show ?thesis
    by simp
qed

lemma report_loop_emit_all:
  "report_loop P tilt d count i s = emit_all P tilt s (map (reports P d) [unat i ..< unat count])"
proof (induction P tilt d count i s rule: report_loop.induct)
  case (1 P tilt d count i ipts evs)
  show ?case
  proof (cases "i < count")
    case True
    obtain ipts1 ev where h: "ipts_stylus_handle_report P tilt ipts (reports P d (unat i)) = (ipts1, ev)"
      by (cases "ipts_stylus_handle_report P tilt ipts (reports P d (unat i))")
    have "report_loop P tilt d count (i + 1) (ipts1, evs @ ev) =
          emit_all P tilt (ipts1, evs @ ev) (map (reports P d) [unat (i + 1) ..< unat count])"
      using "1.IH" [OF True h [symmetric] refl] .
    then show ?thesis
      using True h u8_succ [OF True] by (simp add: upt_conv_Cons)
  next
    case False
    then have "unat count \<le> unat i"
      by (simp add: word_less_nat_alt)
    with False show ?thesis by simp
  qed
qed

lemma ntrig_loop_emit_all:
  "ntrig_loop P tilt d count i s =
     emit_all P tilt s (map (report_of_ntrig P d) [unat i ..< unat count])"
proof (induction P tilt d count i s rule: ntrig_loop.induct)
  case (1 P tilt d count i ipts evs)
  show ?case
  proof (cases "i < count")
    case True
    obtain ipts1 ev where h:
      "ipts_stylus_handle_report P tilt ipts (report_of_ntrig P d (unat i)) = (ipts1, ev)"
      by (cases "ipts_stylus_handle_report P tilt ipts (report_of_ntrig P d (unat i))")
    have "ntrig_loop P tilt d count (i + 1) (ipts1, evs @ ev) =
          emit_all P tilt (ipts1, evs @ ev) (map (report_of_ntrig P d) [unat (i + 1) ..< unat count])"
      using "1.IH" [OF True h [symmetric] refl] .
    then show ?thesis
      using True h u8_succ [OF True] by (simp add: upt_conv_Cons)
  next
    case False
    then have "unat count \<le> unat i"
      by (simp add: word_less_nat_alt)
    with False show ?thesis by simp
  qed
qed

lemma parse_report_decode:
  "ipts_stylus_parse_report P tilt ipts d =
     emit_all P tilt (ipts, []) (decode P (legacy P ipts) d)"
  by (simp add: ipts_stylus_parse_report_def ipts_stylus_parse_report_ntrig_def legacy_def
      decode_def report_loop_emit_all ntrig_loop_emit_all)

lemma length_decode: "length (decode P ntrig d) = unat (data d 32)"
  by (simp add: decode_def)

lemma length_handle_report: "10 \<le> length (snd (ipts_stylus_handle_report P tilt ipts report))"
  by (simp add: handle_report_cases report_group_def)

lemma length_emit_all:
  "length evs + 10 * length rs \<le> length (snd (emit_all P tilt (ipts, evs) rs))"
proof (induction rs arbitrary: ipts evs)
  case Nil
  show ?case by simp
next
  case (Cons r rs)
  obtain ipts1 ev where h: "ipts_stylus_handle_report P tilt ipts r = (ipts1, ev)"
    by (cases "ipts_stylus_handle_report P tilt ipts r")
  have "10 \<le> length ev"
    using length_handle_report [of P tilt ipts r] h by simp
  moreover have "length (evs @ ev) + 10 * length rs
      \<le> length (snd (emit_all P tilt (ipts1, evs @ ev) rs))"
    by (rule Cons.IH)
  ultimately show ?case
    using h by simp
qed

lemma decode_ignores_dsize: "decode P ntrig (d\<lparr>dsize := n\<rparr>) = decode P ntrig d"
  by (simp add: decode_def reports_def report_of_ntrig_def reports_ntrig_def bytes_at_def fun_eq_iff)

lemmas run_defs = ipts_protocol_def mem_of_def bytes_at_def reports_def report_of_ntrig_def
  reports_ntrig_def as_report_le_def as_report_ntrig_le_def le16_def decode_def legacy_def
  blank_context_def pen_session_def legacy_session_def

lemma upt_0_2: "[0 ..< 2] = [0, Suc 0]"
  by (simp add: upt_rec)

lemma decode_short_buffer:
  "decode ipts_protocol False short_buffer =
     [\<lparr>timestamp = 7, mode = 3, x = 100, y = 200, pressure = 50, altitude = 0, azimuth = 0\<rparr>,
      \<lparr>timestamp = 0, mode = 0, x = 0, y = 0, pressure = 0, altitude = 0, azimuth = 0\<rparr>]"
  by (simp add: run_defs short_buffer_def upt_0_2 upt_rec nth_append)

lemma decode_heavy_buffer:
  "decode ipts_protocol False heavy_buffer =
     [\<lparr>timestamp = 7, mode = 3, x = 100, y = 200, pressure = 5000, altitude = 0, azimuth = 0\<rparr>]"
  by (simp add: run_defs heavy_buffer_def upt_rec nth_append)

lemma decode_legacy_buffer:
  "decode ipts_protocol True legacy_buffer =
     [\<lparr>timestamp = 5, mode = 3, x = 100, y = 200, pressure = 50, altitude = 0, azimuth = 0\<rparr>,
      \<lparr>timestamp = 5, mode = 1, x = 101, y = 201, pressure = 0, altitude = 0, azimuth = 0\<rparr>]"
  by (simp add: run_defs legacy_buffer_def upt_0_2 upt_rec nth_append)


lemma axis_values_append: "axis_values a (evs @ evs') = axis_values a evs @ axis_values a evs'"
  by (induction a evs rule: axis_values.induct) simp_all

lemma axis_of_emit_all:
  assumes one: "\<And>ipts r. axis_values a (snd (ipts_stylus_handle_report P tilt ipts r)) = [f r]"
  shows "axis_values a (snd (emit_all P tilt (ipts, evs) rs)) = axis_values a evs @ map f rs"
proof (induction rs arbitrary: ipts evs)
  case Nil
  show ?case by simp
next
  case (Cons r rs)
  obtain ipts1 ev where h: "ipts_stylus_handle_report P tilt ipts r = (ipts1, ev)"
    by (cases "ipts_stylus_handle_report P tilt ipts r")
  have "axis_values a ev = [f r]"
    using one [of ipts r] h by simp
  then show ?case
    using h Cons.IH [of ipts1 "evs @ ev"] by (simp add: axis_values_append)
qed

lemma x_of_parse_report:
  "axis_values ABS_X (snd (ipts_stylus_parse_report P tilt ipts d)) =
     map (\<lambda>r. uint (x r)) (decode P (legacy P ipts) d)"
proof -
  have "\<And>ipts r. axis_values ABS_X (snd (ipts_stylus_handle_report P tilt ipts r)) = [uint (x r)]"
    by (simp add: handle_report_cases report_group_def)
  then show ?thesis
    using axis_of_emit_all [of ABS_X P tilt "\<lambda>r. uint (x r)" ipts "[]"]
    by (simp add: parse_report_decode)
qed

lemma misc_of_parse_report:
  "axis_values ABS_MISC (snd (ipts_stylus_parse_report P tilt ipts d)) =
     map (\<lambda>r. uint (timestamp r)) (decode P (legacy P ipts) d)"
proof -
  have "\<And>ipts r. axis_values ABS_MISC (snd (ipts_stylus_handle_report P tilt ipts r)) =
      [uint (timestamp r)]"
    by (simp add: handle_report_cases report_group_def)
  then show ?thesis
    using axis_of_emit_all [of ABS_MISC P tilt "\<lambda>r. uint (timestamp r)" ipts "[]"]
    by (simp add: parse_report_decode)
qed

text \<open>The reports of \<open>decode\<close>, with the offsets and the fields written out.\<close>

lemma decode_records:
  "decode P (legacy P ipts) d =
     map (\<lambda>i. if quirks ipts AND IPTS_QUIRKS_NTRIG_DIGITIZER P \<noteq> 0
               then (let w = as_report_ntrig P
                          (map (data d) [44 + i * sizeof_report_ntrig P ..<
                                         44 + i * sizeof_report_ntrig P + sizeof_report_ntrig P])
                     in \<lparr>timestamp = ucast (buffer d), mode = mode_ntrig w, x = x_ntrig w,
                         y = y_ntrig w, pressure = pressure_ntrig w, altitude = 0, azimuth = 0\<rparr>)
               else as_report P
                      (map (data d) [40 + i * sizeof_report P ..<
                                     40 + i * sizeof_report P + sizeof_report P]))
         [0 ..< unat (data d 32)]"
  by (simp add: decode_def legacy_def reports_def report_of_ntrig_def reports_ntrig_def
      bytes_at_def Let_def)

lemma decode_two_buffer:
  "decode ipts_protocol False two_buffer =
     [\<lparr>timestamp = 7, mode = 3, x = 100, y = 200, pressure = 50, altitude = 0, azimuth = 0\<rparr>,
      \<lparr>timestamp = 8, mode = 9, x = 101, y = 201, pressure = 0, altitude = 0, azimuth = 300\<rparr>]"
  by (simp add: run_defs two_buffer_def upt_0_2 upt_rec nth_append)

lemma decode_wide_id_buffer:
  "decode ipts_protocol True wide_id_buffer =
     [\<lparr>timestamp = 9029, mode = 3, x = 100, y = 200, pressure = 50, altitude = 0, azimuth = 0\<rparr>,
      \<lparr>timestamp = 9029, mode = 1, x = 101, y = 201, pressure = 0, altitude = 0, azimuth = 0\<rparr>]"
  by (simp add: run_defs wide_id_buffer_def upt_0_2 upt_rec nth_append)

lemmas handle_run_defs = handle_report_cases report_tool_def report_group_def report_tilt_def
  BTN_TOOL_PEN_def BTN_TOOL_RUBBER_def

text \<open>
  The claim C1 as it is stated fails on \<open>short_buffer\<close>: its count of 2 makes the decoder read
  the second record past the 56 bytes of the buffer, and yet the decoder returns and has
  emitted the events of both reports, the first of them read from inside the buffer.
\<close>
theorem short_buffer_yields_events:
  "reads_past_buffer ipts_protocol (legacy ipts_protocol pen_session) short_buffer \<and>
   snd (ipts_stylus_parse_report ipts_protocol tilt_sample pen_session short_buffer) \<noteq> [] \<and>
   ipts_stylus_parse_report ipts_protocol tilt_sample pen_session short_buffer =
     (pen_session,
      [EV_KEY BTN_TOUCH True, EV_KEY BTN_TOOL_PEN True, EV_KEY BTN_STYLUS False,
       EV_ABS ABS_X 100, EV_ABS ABS_Y 200, EV_ABS ABS_PRESSURE 50,
       EV_ABS ABS_MISC 7, EV_ABS ABS_TILT_X 0, EV_ABS ABS_TILT_Y 0, EV_SYN,
       EV_KEY BTN_TOUCH False, EV_KEY BTN_TOOL_PEN False, EV_KEY BTN_STYLUS False,
       EV_ABS ABS_X 0, EV_ABS ABS_Y 0, EV_ABS ABS_PRESSURE 0,
       EV_ABS ABS_MISC 0, EV_ABS ABS_TILT_X 0, EV_ABS ABS_TILT_Y 0, EV_SYN])"
proof -
  have past: "reads_past_buffer ipts_protocol (legacy ipts_protocol pen_session) short_buffer"
    by (simp add: reads_past_buffer_def records_end_def legacy_def pen_session_def
        blank_context_def ipts_protocol_def short_buffer_def mem_of_def nth_append)
  have fmt: "legacy ipts_protocol pen_session = False"
    by (simp add: legacy_def pen_session_def blank_context_def ipts_protocol_def)
  have run: "ipts_stylus_parse_report ipts_protocol tilt_sample pen_session short_buffer =
     (pen_session,
      [EV_KEY BTN_TOUCH True, EV_KEY BTN_TOOL_PEN True, EV_KEY BTN_STYLUS False,
       EV_ABS ABS_X 100, EV_ABS ABS_Y 200, EV_ABS ABS_PRESSURE 50,
       EV_ABS ABS_MISC 7, EV_ABS ABS_TILT_X 0, EV_ABS ABS_TILT_Y 0, EV_SYN,
       EV_KEY BTN_TOUCH False, EV_KEY BTN_TOOL_PEN False, EV_KEY BTN_STYLUS False,
       EV_ABS ABS_X 0, EV_ABS ABS_Y 0, EV_ABS ABS_PRESSURE 0,
       EV_ABS ABS_MISC 0, EV_ABS ABS_TILT_X 0, EV_ABS ABS_TILT_Y 0, EV_SYN])"
    unfolding parse_report_decode fmt decode_short_buffer
    by (simp add: handle_run_defs ipts_protocol_def pen_session_def blank_context_def)
  from past run show ?thesis
    by simp
qed

text \<open>
  C1, amended. For every buffer whose count makes the decoder read records past the actual
  length of the buffer, the decoder does not fail and does not come back without events: it
  has no failing result and never looks at the length, so it handles all the reports that
  the count declares, in record order, with at least ten events for each, exactly as for a
  buffer of any other length with the same bytes in memory.
\<close>
theorem count_is_not_bounded:
  "reads_past_buffer P (legacy P ipts) d \<Longrightarrow>
   ipts_stylus_parse_report P tilt ipts d =
     emit_all P tilt (ipts, []) (decode P (legacy P ipts) d) \<and>
   length (decode P (legacy P ipts) d) = unat (data d 32) \<and>
   10 * unat (data d 32) \<le> length (snd (ipts_stylus_parse_report P tilt ipts d)) \<and>
   snd (ipts_stylus_parse_report P tilt ipts d) \<noteq> [] \<and>
   ipts_stylus_parse_report P tilt ipts (d\<lparr>dsize := n\<rparr>) = ipts_stylus_parse_report P tilt ipts d"
proof -
  assume past: "reads_past_buffer P (legacy P ipts) d"
  then have "data d 32 \<noteq> 0"
    by (simp add: reads_past_buffer_def)
  then have pos: "0 < unat (data d 32)"
    by (simp add: unat_gt_0)
  have len: "10 * unat (data d 32) \<le> length (snd (ipts_stylus_parse_report P tilt ipts d))"
    using length_emit_all [of "[]" "decode P (legacy P ipts) d" P tilt ipts]
    by (simp add: parse_report_decode length_decode)
  with pos have "snd (ipts_stylus_parse_report P tilt ipts d) \<noteq> []"
    by auto
  with len show ?thesis
    by (simp add: parse_report_decode length_decode decode_ignores_dsize)
qed

theorem count_is_not_bounded_witness:
  "reads_past_buffer ipts_protocol (legacy ipts_protocol pen_session) short_buffer \<and>
   length (decode ipts_protocol (legacy ipts_protocol pen_session) short_buffer) = 2 \<and>
   20 \<le> length (snd (ipts_stylus_parse_report ipts_protocol tilt_sample pen_session short_buffer)) \<and>
   ipts_stylus_parse_report ipts_protocol tilt_sample pen_session (short_buffer\<lparr>dsize := 72\<rparr>) =
     ipts_stylus_parse_report ipts_protocol tilt_sample pen_session short_buffer"
proof -
  have past: "reads_past_buffer ipts_protocol (legacy ipts_protocol pen_session) short_buffer"
    by (simp add: reads_past_buffer_def records_end_def legacy_def pen_session_def
        blank_context_def ipts_protocol_def short_buffer_def mem_of_def nth_append)
  have count: "unat (data short_buffer 32) = 2"
    by (simp add: short_buffer_def mem_of_def nth_append)
  note run = count_is_not_bounded [OF past, of tilt_sample 72]
  from run have "length (decode ipts_protocol (legacy ipts_protocol pen_session) short_buffer) =
      unat (data short_buffer 32)"
    by blast
  moreover from run have "10 * unat (data short_buffer 32)
      \<le> length (snd (ipts_stylus_parse_report ipts_protocol tilt_sample pen_session short_buffer))"
    by blast
  moreover from run have
    "ipts_stylus_parse_report ipts_protocol tilt_sample pen_session (short_buffer\<lparr>dsize := 72\<rparr>) =
     ipts_stylus_parse_report ipts_protocol tilt_sample pen_session short_buffer"
    by blast
  ultimately show ?thesis
    using past by (simp only: count) simp
qed

text \<open>
  The claim C6 as it is stated fails on \<open>wide_id_buffer\<close>: the caller supplies the buffer id
  74565, and both reports of the legacy session carry the timestamp 9029, which is what the
  Misc axis delivers.
\<close>
theorem legacy_timestamp_is_truncated:
  "legacy ipts_protocol legacy_session \<and>
   uint (buffer wide_id_buffer) = 74565 \<and>
   map timestamp (decode ipts_protocol (legacy ipts_protocol legacy_session) wide_id_buffer) =
     [9029, 9029] \<and>
   axis_values ABS_MISC
     (snd (ipts_stylus_parse_report ipts_protocol tilt_sample legacy_session wide_id_buffer)) =
     [9029, 9029]"
proof -
  have fmt: "legacy ipts_protocol legacy_session = True"
    by (simp add: legacy_def legacy_session_def blank_context_def ipts_protocol_def)
  have id: "uint (buffer wide_id_buffer) = 74565"
    by (simp add: wide_id_buffer_def)
  show ?thesis
    unfolding misc_of_parse_report fmt decode_wide_id_buffer
    using id by simp
qed

text \<open>
  C6, amended. With the legacy flag set, the decoder reads the count at offset 32 and record
  \<open>i\<close> at offset \<open>44 + i * size\<close>; every canonical report takes mode, x, y and pressure from
  its wire record and has altitude 0 and azimuth 0. Its timestamp is the buffer id of the
  caller as the assignment converts it to the 16 bits of the field: the id modulo 65536,
  which is the id itself when the id is below 65536. This is the value that every report
  of the buffer delivers on the Misc axis.
\<close>
theorem legacy_format_reports:
  "legacy P ipts \<Longrightarrow>
   ipts_stylus_parse_report P tilt ipts d =
     emit_all P tilt (ipts, [])
       (map (\<lambda>i. let w = as_report_ntrig P
                          (map (data d) [44 + i * sizeof_report_ntrig P ..<
                                         44 + i * sizeof_report_ntrig P + sizeof_report_ntrig P])
                 in \<lparr>timestamp = ucast (buffer d), mode = mode_ntrig w, x = x_ntrig w,
                     y = y_ntrig w, pressure = pressure_ntrig w, altitude = 0, azimuth = 0\<rparr>)
            [0 ..< unat (data d 32)]) \<and>
   (\<forall>r \<in> set (decode P (legacy P ipts) d).
      altitude r = 0 \<and> azimuth r = 0 \<and> timestamp r = ucast (buffer d) \<and>
      uint (timestamp r) = uint (buffer d) mod 65536 \<and>
      (uint (buffer d) < 65536 \<longrightarrow> uint (timestamp r) = uint (buffer d))) \<and>
   axis_values ABS_MISC (snd (ipts_stylus_parse_report P tilt ipts d)) =
     replicate (unat (data d 32)) (uint (buffer d) mod 65536)"
proof -
  assume fmt: "legacy P ipts"
  have conv: "uint (ucast (buffer d) :: u16) = uint (buffer d) mod 65536"
    by (simp add: unsigned_ucast_eq unsigned_take_bit_eq take_bit_eq_mod)
  have records: "decode P True d =
       map (\<lambda>i. let w = as_report_ntrig P
                          (map (data d) [44 + i * sizeof_report_ntrig P ..<
                                         44 + i * sizeof_report_ntrig P + sizeof_report_ntrig P])
                 in \<lparr>timestamp = ucast (buffer d), mode = mode_ntrig w, x = x_ntrig w,
                     y = y_ntrig w, pressure = pressure_ntrig w, altitude = 0, azimuth = 0\<rparr>)
            [0 ..< unat (data d 32)]"
    by (simp add: decode_def report_of_ntrig_def reports_ntrig_def bytes_at_def Let_def)
  have "ipts_stylus_parse_report P tilt ipts d = emit_all P tilt (ipts, []) (decode P True d)"
    using fmt by (simp add: parse_report_decode)
  then have first: "ipts_stylus_parse_report P tilt ipts d =
     emit_all P tilt (ipts, [])
       (map (\<lambda>i. let w = as_report_ntrig P
                          (map (data d) [44 + i * sizeof_report_ntrig P ..<
                                         44 + i * sizeof_report_ntrig P + sizeof_report_ntrig P])
                 in \<lparr>timestamp = ucast (buffer d), mode = mode_ntrig w, x = x_ntrig w,
                     y = y_ntrig w, pressure = pressure_ntrig w, altitude = 0, azimuth = 0\<rparr>)
            [0 ..< unat (data d 32)])"
    by (simp only: records)
  have each: "\<forall>r \<in> set (decode P (legacy P ipts) d).
      altitude r = 0 \<and> azimuth r = 0 \<and> timestamp r = ucast (buffer d) \<and>
      uint (timestamp r) = uint (buffer d) mod 65536 \<and>
      (uint (buffer d) < 65536 \<longrightarrow> uint (timestamp r) = uint (buffer d))"
    using fmt conv by (auto simp add: decode_def report_of_ntrig_def)
  then have "map (\<lambda>r. uint (timestamp r)) (decode P (legacy P ipts) d) =
      map (\<lambda>r. uint (buffer d) mod 65536) (decode P (legacy P ipts) d)"
    by auto
  then have "map (\<lambda>r. uint (timestamp r)) (decode P (legacy P ipts) d) =
      replicate (length (decode P (legacy P ipts) d)) (uint (buffer d) mod 65536)"
    by (simp only: map_replicate_const)
  then have "axis_values ABS_MISC (snd (ipts_stylus_parse_report P tilt ipts d)) =
      replicate (unat (data d 32)) (uint (buffer d) mod 65536)"
    by (simp add: misc_of_parse_report length_decode)
  with first each show ?thesis
    by blast
qed

theorem legacy_format_reports_witness:
  "legacy ipts_protocol legacy_session \<and>
   decode ipts_protocol (legacy ipts_protocol legacy_session) legacy_buffer =
     [\<lparr>timestamp = 5, mode = 3, x = 100, y = 200, pressure = 50, altitude = 0, azimuth = 0\<rparr>,
      \<lparr>timestamp = 5, mode = 1, x = 101, y = 201, pressure = 0, altitude = 0, azimuth = 0\<rparr>] \<and>
   ipts_stylus_parse_report ipts_protocol tilt_sample legacy_session legacy_buffer =
     (legacy_session,
      [EV_KEY BTN_TOUCH True, EV_KEY BTN_TOOL_PEN True, EV_KEY BTN_STYLUS False,
       EV_ABS ABS_X 100, EV_ABS ABS_Y 200, EV_ABS ABS_PRESSURE 50,
       EV_ABS ABS_MISC 5, EV_ABS ABS_TILT_X 0, EV_ABS ABS_TILT_Y 0, EV_SYN,
       EV_KEY BTN_TOUCH False, EV_KEY BTN_TOOL_PEN True, EV_KEY BTN_STYLUS False,
       EV_ABS ABS_X 101, EV_ABS ABS_Y 201, EV_ABS ABS_PRESSURE 0,
       EV_ABS ABS_MISC 5, EV_ABS ABS_TILT_X 0, EV_ABS ABS_TILT_Y 0, EV_SYN])"
proof -
  have fmt: "legacy ipts_protocol legacy_session"
    by (simp add: legacy_def legacy_session_def blank_context_def ipts_protocol_def)
  then have fmt': "legacy ipts_protocol legacy_session = True"
    by simp
  have run: "emit_all ipts_protocol tilt_sample (legacy_session, [])
       (decode ipts_protocol True legacy_buffer) =
     (legacy_session,
      [EV_KEY BTN_TOUCH True, EV_KEY BTN_TOOL_PEN True, EV_KEY BTN_STYLUS False,
       EV_ABS ABS_X 100, EV_ABS ABS_Y 200, EV_ABS ABS_PRESSURE 50,
       EV_ABS ABS_MISC 5, EV_ABS ABS_TILT_X 0, EV_ABS ABS_TILT_Y 0, EV_SYN,
       EV_KEY BTN_TOUCH False, EV_KEY BTN_TOOL_PEN True, EV_KEY BTN_STYLUS False,
       EV_ABS ABS_X 101, EV_ABS ABS_Y 201, EV_ABS ABS_PRESSURE 0,
       EV_ABS ABS_MISC 5, EV_ABS ABS_TILT_X 0, EV_ABS ABS_TILT_Y 0, EV_SYN])"
    unfolding decode_legacy_buffer
    by (simp add: handle_run_defs ipts_protocol_def legacy_session_def blank_context_def)
  have records: "map (\<lambda>i. let w = as_report_ntrig ipts_protocol
                          (map (data legacy_buffer) [44 + i * sizeof_report_ntrig ipts_protocol ..<
                             44 + i * sizeof_report_ntrig ipts_protocol + sizeof_report_ntrig ipts_protocol])
                 in \<lparr>timestamp = ucast (buffer legacy_buffer), mode = mode_ntrig w, x = x_ntrig w,
                     y = y_ntrig w, pressure = pressure_ntrig w, altitude = 0, azimuth = 0\<rparr>)
            [0 ..< unat (data legacy_buffer 32)] = decode ipts_protocol True legacy_buffer"
    by (simp add: decode_def report_of_ntrig_def reports_ntrig_def bytes_at_def Let_def)
  have "ipts_stylus_parse_report ipts_protocol tilt_sample legacy_session legacy_buffer =
      emit_all ipts_protocol tilt_sample (legacy_session, [])
        (decode ipts_protocol True legacy_buffer)"
    using legacy_format_reports [OF fmt, of tilt_sample legacy_buffer, THEN conjunct1]
    by (simp only: records)
  with fmt run show ?thesis
    by (simp add: fmt' decode_legacy_buffer)
qed

text \<open>
  C7. For either wire format the decoder handles exactly \<open>count\<close> reports, where \<open>count\<close> is
  the byte at offset 32, in the order of the records on the wire: its result is that of
  calling \<open>ipts_stylus_handle_report\<close> once for each \<open>i\<close> from 0 to \<open>count - 1\<close>, in this
  order, on the record at offset \<open>40 + i * size\<close> of the current format or on the report
  built from the record at offset \<open>44 + i * size\<close> of the legacy format. The values
  delivered on the X axis are therefore the x fields of these records, one for each, in
  record order. For a count of 0 there is no event and the session is unchanged.
\<close>
theorem parse_report_handles_count_reports:
  "ipts_stylus_parse_report P tilt ipts d =
     emit_all P tilt (ipts, [])
       (map (\<lambda>i. if quirks ipts AND IPTS_QUIRKS_NTRIG_DIGITIZER P \<noteq> 0
                 then (let w = as_report_ntrig P
                            (map (data d) [44 + i * sizeof_report_ntrig P ..<
                                           44 + i * sizeof_report_ntrig P + sizeof_report_ntrig P])
                       in \<lparr>timestamp = ucast (buffer d), mode = mode_ntrig w, x = x_ntrig w,
                           y = y_ntrig w, pressure = pressure_ntrig w, altitude = 0, azimuth = 0\<rparr>)
                 else as_report P
                        (map (data d) [40 + i * sizeof_report P ..<
                                       40 + i * sizeof_report P + sizeof_report P]))
            [0 ..< unat (data d 32)]) \<and>
   axis_values ABS_X (snd (ipts_stylus_parse_report P tilt ipts d)) =
     map (\<lambda>i. if quirks ipts AND IPTS_QUIRKS_NTRIG_DIGITIZER P \<noteq> 0
               then uint (x_ntrig (as_report_ntrig P
                      (map (data d) [44 + i * sizeof_report_ntrig P ..<
                                     44 + i * sizeof_report_ntrig P + sizeof_report_ntrig P])))
               else uint (x (as_report P
                      (map (data d) [40 + i * sizeof_report P ..<
                                     40 + i * sizeof_report P + sizeof_report P]))))
         [0 ..< unat (data d 32)] \<and>
   length (axis_values ABS_X (snd (ipts_stylus_parse_report P tilt ipts d))) = unat (data d 32) \<and>
   (data d 32 = 0 \<longrightarrow> ipts_stylus_parse_report P tilt ipts d = (ipts, []))"
proof (intro conjI impI)
  show "ipts_stylus_parse_report P tilt ipts d =
     emit_all P tilt (ipts, [])
       (map (\<lambda>i. if quirks ipts AND IPTS_QUIRKS_NTRIG_DIGITIZER P \<noteq> 0
                 then (let w = as_report_ntrig P
                            (map (data d) [44 + i * sizeof_report_ntrig P ..<
                                           44 + i * sizeof_report_ntrig P + sizeof_report_ntrig P])
                       in \<lparr>timestamp = ucast (buffer d), mode = mode_ntrig w, x = x_ntrig w,
                           y = y_ntrig w, pressure = pressure_ntrig w, altitude = 0, azimuth = 0\<rparr>)
                 else as_report P
                        (map (data d) [40 + i * sizeof_report P ..<
                                       40 + i * sizeof_report P + sizeof_report P]))
            [0 ..< unat (data d 32)])"
    by (simp only: parse_report_decode decode_records)
  show "axis_values ABS_X (snd (ipts_stylus_parse_report P tilt ipts d)) =
     map (\<lambda>i. if quirks ipts AND IPTS_QUIRKS_NTRIG_DIGITIZER P \<noteq> 0
               then uint (x_ntrig (as_report_ntrig P
                      (map (data d) [44 + i * sizeof_report_ntrig P ..<
                                     44 + i * sizeof_report_ntrig P + sizeof_report_ntrig P])))
               else uint (x (as_report P
                      (map (data d) [40 + i * sizeof_report P ..<
                                     40 + i * sizeof_report P + sizeof_report P]))))
         [0 ..< unat (data d 32)]"
    by (simp add: x_of_parse_report decode_records Let_def)
  show "length (axis_values ABS_X (snd (ipts_stylus_parse_report P tilt ipts d))) =
      unat (data d 32)"
    by (simp add: x_of_parse_report length_decode)
next
  assume "data d 32 = 0"
  then have "decode P (legacy P ipts) d = []"
    by (simp add: decode_def)
  then show "ipts_stylus_parse_report P tilt ipts d = (ipts, [])"
    by (simp add: parse_report_decode)
qed

theorem parse_report_handles_count_reports_witness:
  "data empty_buffer 32 = 0 \<and>
   ipts_stylus_parse_report ipts_protocol tilt_sample pen_session empty_buffer = (pen_session, []) \<and>
   unat (data two_buffer 32) = 2 \<and>
   ipts_stylus_parse_report ipts_protocol tilt_sample pen_session two_buffer =
     (pen_session\<lparr>stylus_tool := BTN_TOOL_RUBBER\<rparr>,
      [EV_KEY BTN_TOUCH True, EV_KEY BTN_TOOL_PEN True, EV_KEY BTN_STYLUS False,
       EV_ABS ABS_X 100, EV_ABS ABS_Y 200, EV_ABS ABS_PRESSURE 50,
       EV_ABS ABS_MISC 7, EV_ABS ABS_TILT_X 0, EV_ABS ABS_TILT_Y 0, EV_SYN,
       EV_KEY BTN_TOOL_PEN False, EV_SYN,
       EV_KEY BTN_TOUCH False, EV_KEY BTN_TOOL_RUBBER True, EV_KEY BTN_STYLUS False,
       EV_ABS ABS_X 101, EV_ABS ABS_Y 201, EV_ABS ABS_PRESSURE 0,
       EV_ABS ABS_MISC 8, EV_ABS ABS_TILT_X 0, EV_ABS ABS_TILT_Y 0, EV_SYN]) \<and>
   axis_values ABS_X
     (snd (ipts_stylus_parse_report ipts_protocol tilt_sample pen_session two_buffer)) =
     [100, 101] \<and>
   axis_values ABS_X
     (snd (ipts_stylus_parse_report ipts_protocol tilt_sample legacy_session legacy_buffer)) =
     [100, 101]"
proof -
  have zero: "data empty_buffer 32 = 0"
    by (simp add: empty_buffer_def mem_of_def)
  have two: "unat (data two_buffer 32) = 2"
    by (simp add: two_buffer_def mem_of_def nth_append)
  have two': "unat (data legacy_buffer 32) = 2"
    by (simp add: legacy_buffer_def mem_of_def nth_append)
  note empty = parse_report_handles_count_reports
    [of ipts_protocol tilt_sample pen_session empty_buffer]
  note current = parse_report_handles_count_reports
    [of ipts_protocol tilt_sample pen_session two_buffer]
  note ntrig = parse_report_handles_count_reports
    [of ipts_protocol tilt_sample legacy_session legacy_buffer]
  have none: "ipts_stylus_parse_report ipts_protocol tilt_sample pen_session empty_buffer =
      (pen_session, [])"
    using empty zero by blast
  have run: "ipts_stylus_parse_report ipts_protocol tilt_sample pen_session two_buffer =
     (pen_session\<lparr>stylus_tool := BTN_TOOL_RUBBER\<rparr>,
      [EV_KEY BTN_TOUCH True, EV_KEY BTN_TOOL_PEN True, EV_KEY BTN_STYLUS False,
       EV_ABS ABS_X 100, EV_ABS ABS_Y 200, EV_ABS ABS_PRESSURE 50,
       EV_ABS ABS_MISC 7, EV_ABS ABS_TILT_X 0, EV_ABS ABS_TILT_Y 0, EV_SYN,
       EV_KEY BTN_TOOL_PEN False, EV_SYN,
       EV_KEY BTN_TOUCH False, EV_KEY BTN_TOOL_RUBBER True, EV_KEY BTN_STYLUS False,
       EV_ABS ABS_X 101, EV_ABS ABS_Y 201, EV_ABS ABS_PRESSURE 0,
       EV_ABS ABS_MISC 8, EV_ABS ABS_TILT_X 0, EV_ABS ABS_TILT_Y 0, EV_SYN])"
    unfolding current [THEN conjunct1] two
    by (simp add: ipts_protocol_def pen_session_def blank_context_def two_buffer_def mem_of_def
        as_report_le_def le16_def upt_0_2 upt_rec nth_append handle_run_defs)
  have xs: "axis_values ABS_X
       (snd (ipts_stylus_parse_report ipts_protocol tilt_sample pen_session two_buffer)) =
     [100, 101]"
    unfolding current [THEN conjunct2, THEN conjunct1] two
    by (simp add: ipts_protocol_def pen_session_def blank_context_def two_buffer_def mem_of_def
        as_report_le_def le16_def upt_0_2 upt_rec nth_append)
  have xs': "axis_values ABS_X
       (snd (ipts_stylus_parse_report ipts_protocol tilt_sample legacy_session legacy_buffer)) =
     [100, 101]"
    unfolding ntrig [THEN conjunct2, THEN conjunct1] two'
    by (simp add: ipts_protocol_def legacy_session_def blank_context_def legacy_buffer_def
        mem_of_def as_report_ntrig_le_def le16_def upt_0_2 upt_rec nth_append)
  from zero none two run xs xs' show ?thesis
    by blast
qed

section \<open>The pressure axis\<close>

lemma pressure_of_handle_report:
  "axis_values ABS_PRESSURE (snd (ipts_stylus_handle_report P tilt ipts report)) =
     [uint (pressure report)]"
  by (simp add: handle_report_cases report_group_def)

lemma pressure_of_emit_all:
  "axis_values ABS_PRESSURE (snd (emit_all P tilt (ipts, evs) rs)) =
     axis_values ABS_PRESSURE evs @ map (\<lambda>r. uint (pressure r)) rs"
proof (induction rs arbitrary: ipts evs)
  case Nil
  show ?case by simp
next
  case (Cons r rs)
  obtain ipts1 ev where h: "ipts_stylus_handle_report P tilt ipts r = (ipts1, ev)"
    by (cases "ipts_stylus_handle_report P tilt ipts r")
  have "axis_values ABS_PRESSURE ev = [uint (pressure r)]"
    using pressure_of_handle_report [of P tilt ipts r] h by simp
  then show ?case
    using h Cons.IH [of ipts1 "evs @ ev"] by (simp add: axis_values_append)
qed

lemma uint_u16_le: "uint (w :: u16) \<le> 65535"
  using unsigned_less [of w, where ?'a = int] by simp

lemma pressure_max_init:
  "pressure_max (fst (snd (ipts_stylus_init P (Some dev0) register ipts))) =
     Some (if legacy P ipts then 1024 else 4096)"
  by (simp add: ipts_stylus_init_def pressure_max_def stylus_setup_def legacy_def Let_def
      input_set_abs_params_def input_abs_set_res_def input_set_capability_key_def
      split: option.split)

text \<open>
  The claim C8 as it is stated fails on \<open>heavy_buffer\<close>: the session is started on the
  current format and declares 4096 as the maximum of the pressure axis, and the report
  delivers 5000 on it.
\<close>
theorem pressure_above_declared_maximum:
  "pressure_max current_session = Some 4096 \<and>
   axis_values ABS_PRESSURE
     (snd (ipts_stylus_parse_report ipts_protocol tilt_sample current_session heavy_buffer)) = [5000]"
proof -
  have fmt: "legacy ipts_protocol (blank_context 0) = False"
    by (simp add: legacy_def blank_context_def ipts_protocol_def)
  have "pressure_max current_session = Some 4096"
    unfolding current_session_def pressure_max_init fmt by simp
  moreover have "legacy ipts_protocol current_session = False"
    by (simp add: current_session_def ipts_stylus_init_def legacy_def blank_context_def
        ipts_protocol_def Let_def)
  ultimately show ?thesis
    by (simp add: parse_report_decode pressure_of_emit_all decode_heavy_buffer
        pressure_of_handle_report)
qed

text \<open>
  C8, amended. The value delivered on the pressure axis for a report is the 16-bit pressure
  field of the report, unchanged: the driver does not clamp it. It is therefore at most
  65535, and it stays below a bound whenever the wire value does. The maximum that the
  session declares for the axis at registration is 1024 for the legacy format and 4096 for
  the current one.
\<close>
theorem pressure_is_passed_through:
  "axis_values ABS_PRESSURE (snd (ipts_stylus_handle_report P tilt ipts report)) =
     [uint (pressure report)] \<and>
   uint (pressure report) \<le> 65535 \<and>
   axis_values ABS_PRESSURE (snd (ipts_stylus_parse_report P tilt ipts d)) =
     map (\<lambda>r. uint (pressure r)) (decode P (legacy P ipts) d) \<and>
   pressure_max (fst (snd (ipts_stylus_init P (Some dev0) register ipts0))) =
     Some (if legacy P ipts0 then 1024 else 4096) \<and>
   (uint (pressure report) \<le> m \<longrightarrow>
      (\<forall>v \<in> set (axis_values ABS_PRESSURE (snd (ipts_stylus_handle_report P tilt ipts report))).
         v \<le> m))"
  by (simp add: pressure_of_handle_report uint_u16_le parse_report_decode pressure_of_emit_all
      pressure_max_init)

theorem pressure_is_passed_through_witness:
  "axis_values ABS_PRESSURE
     (snd (ipts_stylus_handle_report ipts_protocol tilt_sample pen_session pen_report)) = [50] \<and>
   uint (pressure pen_report) \<le> 4096 \<and>
   pressure_max (fst (snd (ipts_stylus_init ipts_protocol (Some blank_dev) register_ok
       legacy_session))) = Some 1024"
proof -
  have fmt: "legacy ipts_protocol legacy_session"
    by (simp add: legacy_def legacy_session_def blank_context_def ipts_protocol_def)
  have p: "uint (pressure pen_report) = 50"
    by (simp add: pen_report_def)
  show ?thesis
    using fmt p
      pressure_is_passed_through [of ipts_protocol tilt_sample pen_session pen_report
        heavy_buffer blank_dev register_ok legacy_session 4096]
    by simp
qed

section \<open>Start and teardown of the session\<close>

text \<open>
  C9. With the device allocated: when registration fails, \<open>ipts_stylus_init\<close> returns the code
  of the failed registration, and its last call before returning releases the device, so
  that the input core holds nothing for the driver; when registration succeeds, it returns 0,
  the active tool of the session is the pen and the device is registered.
\<close>
theorem init_registration_outcome:
  "dev = stylus_setup P (ipts\<lparr>stylus := Some dev0, stylus_tool := BTN_TOOL_PEN\<rparr>) dev0 \<Longrightarrow>
   (register dev \<noteq> 0 \<longrightarrow>
      fst (ipts_stylus_init P (Some dev0) register ipts) = register dev \<and>
      snd (snd (ipts_stylus_init P (Some dev0) register ipts)) =
        [Input_allocate_device (Some dev0), Input_register_device dev (register dev),
         Dev_err (name dev) (register dev), Input_free_device] \<and>
      core_after (snd (snd (ipts_stylus_init P (Some dev0) register ipts))) = Released) \<and>
   (register dev = 0 \<longrightarrow>
      fst (ipts_stylus_init P (Some dev0) register ipts) = 0 \<and>
      stylus_tool (fst (snd (ipts_stylus_init P (Some dev0) register ipts))) = BTN_TOOL_PEN \<and>
      stylus (fst (snd (ipts_stylus_init P (Some dev0) register ipts))) = Some dev \<and>
      snd (snd (ipts_stylus_init P (Some dev0) register ipts)) =
        [Input_allocate_device (Some dev0), Input_register_device dev 0] \<and>
      core_after (snd (snd (ipts_stylus_init P (Some dev0) register ipts))) = Registered)"
proof -
  assume dev: "dev = stylus_setup P (ipts\<lparr>stylus := Some dev0, stylus_tool := BTN_TOOL_PEN\<rparr>) dev0"
  show ?thesis
  proof (cases "register dev = 0")
    case True
    then show ?thesis
      using dev by (simp add: ipts_stylus_init_def Let_def core_after_def)
  next
    case False
    then have "ipts_stylus_init P (Some dev0) register ipts =
        (register dev, ipts\<lparr>stylus := Some dev, stylus_tool := BTN_TOOL_PEN\<rparr>,
         [Input_allocate_device (Some dev0), Input_register_device dev (register dev),
          Dev_err (name dev) (register dev), Input_free_device])"
      using dev by (simp add: ipts_stylus_init_def Let_def)
    with False show ?thesis
      by (simp add: core_after_def)
  qed
qed

theorem init_registration_outcome_witness:
  "fst (ipts_stylus_init ipts_protocol (Some blank_dev) register_fails (blank_context 0)) = - 12 \<and>
   core_after (snd (snd (ipts_stylus_init ipts_protocol (Some blank_dev) register_fails
       (blank_context 0)))) = Released \<and>
   fst (ipts_stylus_init ipts_protocol (Some blank_dev) register_ok (blank_context 0)) = 0 \<and>
   stylus_tool (fst (snd (ipts_stylus_init ipts_protocol (Some blank_dev) register_ok
       (blank_context 0)))) = BTN_TOOL_PEN \<and>
   core_after (snd (snd (ipts_stylus_init ipts_protocol (Some blank_dev) register_ok
       (blank_context 0)))) = Registered"
  using init_registration_outcome [where P = ipts_protocol and ipts = "blank_context 0"
        and ?dev0.0 = blank_dev and register = register_fails, OF refl]
    init_registration_outcome [where P = ipts_protocol and ipts = "blank_context 0"
        and ?dev0.0 = blank_dev and register = register_ok, OF refl]
  by (simp add: register_fails_def register_ok_def core_after_def)

text \<open>
  The null guard of the teardown: when the pointer to the stylus device is null,
  \<open>ipts_stylus_free\<close> returns at once and unregisters nothing. This is the case after an
  initialisation that failed at the allocation of the device, which stores the null pointer
  and returns \<open>-ENOMEM\<close>.
\<close>
lemma free_of_null_device:
  "(stylus ipts = None \<longrightarrow> ipts_stylus_free ipts = []) \<and>
   fst (ipts_stylus_init P None register ipts) = - ENOMEM \<and>
   ipts_stylus_free (fst (snd (ipts_stylus_init P None register ipts))) = []"
  by (simp add: ipts_stylus_free_def ipts_stylus_init_def)

lemma free_of_null_device_run:
  "stylus (blank_context 0) = None \<and> ipts_stylus_free (blank_context 0) = [] \<and>
   ipts_stylus_free (fst (snd (ipts_stylus_init ipts_protocol None register_ok pen_session))) = []"
proof -
  have null: "stylus (blank_context 0) = None"
    by (simp add: blank_context_def)
  show ?thesis
    using null free_of_null_device [of "blank_context 0" ipts_protocol register_ok]
      free_of_null_device [of pen_session ipts_protocol register_ok]
    by simp
qed

text \<open>
  C10. The teardown is to do nothing after an initialisation that failed. The code misses
  this after a registration that failed: \<open>ipts_stylus_init\<close> returns the error and has
  released the device, so that the input core holds nothing for the driver, but it leaves
  the pointer to the released device in the session. The null guard of \<open>ipts_stylus_free\<close>
  does not see a null pointer, and the teardown calls \<^verbatim>\<open>input_unregister_device\<close> on the
  released device. After the sibling failure, that of the allocation, the pointer is null
  and the teardown makes no call.
\<close>
theorem teardown_after_failed_registration:
  "fst (ipts_stylus_init ipts_protocol (Some blank_dev) register_fails (blank_context 0)) = - 12 \<and>
   core_after (snd (snd (ipts_stylus_init ipts_protocol (Some blank_dev) register_fails
       (blank_context 0)))) = Released \<and>
   stylus failed_session \<noteq> None \<and>
   ipts_stylus_free failed_session = [Input_unregister_device] \<and>
   ipts_stylus_free
     (fst (snd (ipts_stylus_init ipts_protocol None register_fails (blank_context 0)))) = []"
  by (simp add: failed_session_def ipts_stylus_init_def ipts_stylus_free_def Let_def
      register_fails_def core_after_def)

end
